theory Spec2Isabelle
  imports Main "HOL-Library.Sublist"
begin

section \<open>The XLSX data viewer (src/App.tsx)\<close>

text \<open>
  The repository is one React component, \<^verbatim>\<open>App\<close>. Its state is six \<^verbatim>\<open>useState\<close>
  cells; its behaviour is three event handlers (\<^verbatim>\<open>handleFileChange\<close> with the two
  \<^verbatim>\<open>FileReader\<close> callbacks it installs, \<^verbatim>\<open>filterData\<close>, \<^verbatim>\<open>clearFile\<close>). Each handler is
  modelled as a function from the state before to the state after; the one place where
  JavaScript could raise outside a \<^verbatim>\<open>try\<close> (the filter callback) returns a sum type.
\<close>

subsection \<open>JavaScript values and the runtime\<close>

text \<open>
  A spreadsheet cell decoded by the external library is a string, a number or a boolean;
  a property that is absent reads as \<^verbatim>\<open>undefined\<close>. \<^verbatim>\<open>null\<close> is kept as a value because the
  optional chaining of the filter guards against both. The type of numbers is a
  parameter \<open>'n\<close>: the component never computes with a number, it only renders it.
\<close>

datatype 'n jsval = Undefined | Null | Bool bool | Num 'n | Str string

datatype js_error = TypeError

text \<open>
  The two methods of the JavaScript runtime that the component calls on cell contents,
  \<^verbatim>\<open>Number.prototype.toString\<close> and \<^verbatim>\<open>String.prototype.toLowerCase\<close>, are not code of the
  repository. They are taken as parameters, so every theorem below holds for whatever
  these two functions compute.
\<close>

record 'n js_runtime =
  Number_toString :: "'n \<Rightarrow> string"
  String_toLowerCase :: "string \<Rightarrow> string"

text \<open>
  \<^verbatim>\<open>v.toString()\<close>: a member access on \<^verbatim>\<open>undefined\<close> or \<^verbatim>\<open>null\<close> raises a TypeError; the
  other values have the method.
\<close>

fun toString_method :: "'n js_runtime \<Rightarrow> 'n jsval \<Rightarrow> js_error + string" where
  "toString_method rt Undefined = Inl TypeError"
| "toString_method rt Null = Inl TypeError"
| "toString_method rt (Bool b) = Inr (if b then ''true'' else ''false'')"
| "toString_method rt (Num n) = Inr (Number_toString rt n)"
| "toString_method rt (Str s) = Inr s"

text \<open>\<^verbatim>\<open>s.startsWith(t)\<close> and \<^verbatim>\<open>s.includes(t)\<close>: \<open>t\<close> occurs in \<open>s\<close> at position 0, at some position.\<close>

fun String_startsWith :: "string \<Rightarrow> string \<Rightarrow> bool" where
  "String_startsWith s [] = True"
| "String_startsWith [] (d # t) = False"
| "String_startsWith (c # s) (d # t) = (c = d \<and> String_startsWith s t)"

fun String_includes :: "string \<Rightarrow> string \<Rightarrow> bool" where
  "String_includes [] t = (t = [])"
| "String_includes (c # s) t = (String_startsWith (c # s) t \<or> String_includes s t)"

text \<open>\<^verbatim>\<open>xs.join(sep)\<close> on an array of strings.\<close>

fun Array_join :: "string list \<Rightarrow> string \<Rightarrow> string" where
  "Array_join [] sep = []"
| "Array_join [x] sep = x"
| "Array_join (x # y # xs) sep = x @ sep @ Array_join (y # xs) sep"

text \<open>
  The result of the filter callback has the TypeScript type \<^verbatim>\<open>boolean | undefined\<close>:
  \<open>None\<close> is \<^verbatim>\<open>undefined\<close>. \<^verbatim>\<open>Array.prototype.filter\<close> keeps an element when the callback's
  result is truthy, and an exception raised by the callback ends the whole call.
\<close>

fun truthy :: "bool option \<Rightarrow> bool" where
  "truthy None = False"
| "truthy (Some b) = b"

fun Array_filter :: "('a \<Rightarrow> js_error + bool option) \<Rightarrow> 'a list \<Rightarrow> js_error + 'a list" where
  "Array_filter f [] = Inr []"
| "Array_filter f (x # xs) =
     (case f x of
        Inl e \<Rightarrow> Inl e
      | Inr keep \<Rightarrow>
          (case Array_filter f xs of
             Inl e \<Rightarrow> Inl e
           | Inr ys \<Rightarrow> Inr (if truthy keep then x # ys else ys)))"

subsection \<open>Rows and the component's state\<close>

text \<open>
  A decoded row (\<^verbatim>\<open>jsonData: any[]\<close>) is an object: its own keys with their values, in
  order. \<^verbatim>\<open>Object.keys\<close> lists the keys; reading a key that is absent gives \<^verbatim>\<open>undefined\<close>.
\<close>

type_synonym 'n json_row = "(string \<times> 'n jsval) list"

definition Object_keys :: "'n json_row \<Rightarrow> string list" where
  "Object_keys row = map fst row"

definition get_prop :: "'n json_row \<Rightarrow> string \<Rightarrow> 'n jsval" where
  "get_prop row k = (case map_of row k of None \<Rightarrow> Undefined | Some v \<Rightarrow> v)"

text \<open>\<^verbatim>\<open>IRowData\<close>: the five named fields of a row of the table.\<close>

record 'n IRowData =
  NTE :: "'n jsval"
  Municipio :: "'n jsval"
  Cod_SEC :: "'n jsval"
  Nome_Escola :: "'n jsval"
  Valor :: "'n jsval"

record 'n app_state =
  data :: "'n IRowData list"
  filteredData :: "'n IRowData list"
  searchTerm :: string
  error :: "string option"
  fileName :: "string option"
  isLoading :: bool

text \<open>The initial values of the six \<^verbatim>\<open>useState\<close> cells (lines 9-14).\<close>

definition initial_state :: "'n app_state" where
  "initial_state =
     \<lparr>data = [], filteredData = [], searchTerm = [], error = None, fileName = None,
      isLoading = False\<rparr>"

definition expectedHeaders :: "string list" where
  "expectedHeaders = [''NTE'', ''Municipio'', ''Cod.SEC'', ''Nome Escola'', ''Valor'']"

subsection \<open>clearFile (lines 93-102)\<close>

text \<open>
  The five setters of \<^verbatim>\<open>clearFile\<close>. The last two lines of the source reset the value of
  the file input element of the page, which is not part of the component's state.
\<close>

definition clearFile :: "'n app_state \<Rightarrow> 'n app_state" where
  "clearFile s =
     s\<lparr>data := [], filteredData := [], searchTerm := [], fileName := None, error := None\<rparr>"

subsection \<open>handleFileChange and the FileReader callbacks (lines 18-74)\<close>

text \<open>The four messages passed to \<^verbatim>\<open>setError\<close> (lines 37, 46, 62, 69).\<close>

definition msg_empty :: string where
  "msg_empty = ''The selected file is empty or in an unsupported format.''"

definition msg_missing :: string where
  "msg_missing =
     ''The file is missing required columns. Please ensure it has: ''
       @ Array_join expectedHeaders '', '' @ ''.''"

definition msg_parse :: string where
  "msg_parse = ''Failed to parse the XLSX file. Please check the file format and try again.''"

definition msg_read :: string where
  "msg_read = ''Failed to read the file.''"

text \<open>
  The synchronous part (lines 19-25). The argument is \<^verbatim>\<open>event.target.files?.[0]\<close>, a file
  being its name: \<open>None\<close> when the picker was closed without a choice.
\<close>

definition handleFileChange :: "string option \<Rightarrow> 'n app_state \<Rightarrow> 'n app_state" where
  "handleFileChange file s =
     (case file of
        None \<Rightarrow> s
      | Some name \<Rightarrow> s\<lparr>isLoading := True, error := None, fileName := Some name, data := []\<rparr>)"

text \<open>
  Lines 30-34 call the external library (\<^verbatim>\<open>XLSX.read\<close>, \<^verbatim>\<open>XLSX.utils.sheet_to_json\<close>) inside
  the \<^verbatim>\<open>try\<close>: they raise, or they give the array \<^verbatim>\<open>jsonData\<close> of decoded rows.
\<close>

datatype 'n xlsx_result = Throws | Rows "'n json_row list"

text \<open>\<^verbatim>\<open>expectedHeaders.every(header => headers.includes(header))\<close> (line 43).\<close>

definition hasAllHeaders :: "string list \<Rightarrow> bool" where
  "hasAllHeaders headers = list_all (\<lambda>header. header \<in> set headers) expectedHeaders"

text \<open>The callback of \<^verbatim>\<open>jsonData.map\<close> (lines 52-58).\<close>

definition to_IRowData :: "'n json_row \<Rightarrow> 'n IRowData" where
  "to_IRowData row =
     \<lparr>NTE = get_prop row ''NTE'', Municipio = get_prop row ''Municipio'',
      Cod_SEC = get_prop row ''Cod.SEC'', Nome_Escola = get_prop row ''Nome Escola'',
      Valor = get_prop row ''Valor''\<rparr>"

text \<open>
  \<^verbatim>\<open>reader.onload\<close> (lines 28-67). The \<^verbatim>\<open>finally\<close> block runs on every path, also after the
  two early returns, so every branch ends with \<^verbatim>\<open>isLoading\<close> false.
\<close>

definition reader_onload :: "'n xlsx_result \<Rightarrow> 'n app_state \<Rightarrow> 'n app_state" where
  "reader_onload result s =
     (case result of
        Throws \<Rightarrow> s\<lparr>error := Some msg_parse, fileName := None, isLoading := False\<rparr>
      | Rows jsonData \<Rightarrow>
          (case jsonData of
             [] \<Rightarrow> s\<lparr>error := Some msg_empty, isLoading := False\<rparr>
           | first_row # _ \<Rightarrow>
               (let headers = Object_keys first_row in
                if \<not> hasAllHeaders headers
                then s\<lparr>error := Some msg_missing, isLoading := False, fileName := None\<rparr>
                else s\<lparr>data := map to_IRowData jsonData, isLoading := False\<rparr>)))"

text \<open>\<^verbatim>\<open>reader.onerror\<close> (lines 68-72).\<close>

definition reader_onerror :: "'n app_state \<Rightarrow> 'n app_state" where
  "reader_onerror s = s\<lparr>error := Some msg_read, isLoading := False, fileName := None\<rparr>"

text \<open>
  One upload from start to end: the user picks a file, the reader reads it and calls one
  of its two callbacks, and no other event of the component comes in between.
\<close>

datatype 'n read_event = OnError | OnLoad "'n xlsx_result"

definition upload :: "string \<Rightarrow> 'n read_event \<Rightarrow> 'n app_state \<Rightarrow> 'n app_state" where
  "upload name ev s =
     (let s1 = handleFileChange (Some name) s in
      case ev of OnError \<Rightarrow> reader_onerror s1 | OnLoad result \<Rightarrow> reader_onload result s1)"

subsection \<open>filterData (lines 76-91)\<close>

text \<open>
  The callback of \<^verbatim>\<open>data.filter\<close> (lines 83-85):
  \<^verbatim>\<open>item['Cod.SEC']?.toString().toLowerCase().includes(lowercasedFilter)\<close>. The optional
  chaining ends the whole chain with \<^verbatim>\<open>undefined\<close> when the field is \<^verbatim>\<open>undefined\<close> or \<^verbatim>\<open>null\<close>.
\<close>

fun nullish :: "'n jsval \<Rightarrow> bool" where
  "nullish Undefined = True"
| "nullish Null = True"
| "nullish v = False"

definition filter_callback ::
  "'n js_runtime \<Rightarrow> string \<Rightarrow> 'n IRowData \<Rightarrow> js_error + bool option" where
  "filter_callback rt lowercasedFilter item =
     (let v = Cod_SEC item in
      if nullish v then Inr None
      else (case toString_method rt v of
              Inl e \<Rightarrow> Inl e
            | Inr str \<Rightarrow>
                Inr (Some (String_includes (String_toLowerCase rt str) lowercasedFilter))))"

text \<open>
  The body of \<^verbatim>\<open>filterData\<close> as a function of the two state cells it reads: the value it
  passes to \<^verbatim>\<open>setFilteredData\<close>. \<^verbatim>\<open>!searchTerm\<close> holds of a string exactly when it is empty.
\<close>

definition filtered_rows ::
  "'n js_runtime \<Rightarrow> 'n IRowData list \<Rightarrow> string \<Rightarrow> js_error + 'n IRowData list" where
  "filtered_rows rt rows term =
     (if term = [] then Inr rows
      else (let lowercasedFilter = String_toLowerCase rt term in
            Array_filter (filter_callback rt lowercasedFilter) rows))"

definition filterData :: "'n js_runtime \<Rightarrow> 'n app_state \<Rightarrow> js_error + 'n app_state" where
  "filterData rt s =
     (case filtered_rows rt (data s) (searchTerm s) of
        Inl e \<Rightarrow> Inl e
      | Inr filtered \<Rightarrow> Inr (s\<lparr>filteredData := filtered\<rparr>))"

subsection \<open>A runtime to evaluate with\<close>

text \<open>
  For evaluating the model on concrete inputs: numbers that are integers, rendered in
  decimal, and strings of ASCII characters, whose capital letters are lowered. On such
  inputs JavaScript's \<^verbatim>\<open>toString\<close> and \<^verbatim>\<open>toLowerCase\<close> compute the same.
\<close>

definition char_toLowerCase :: "char \<Rightarrow> char" where
  "char_toLowerCase c =
     (case map_of (zip ''ABCDEFGHIJKLMNOPQRSTUVWXYZ'' ''abcdefghijklmnopqrstuvwxyz'') c of
        None \<Rightarrow> c
      | Some l \<Rightarrow> l)"

definition digit_char :: "nat \<Rightarrow> char" where
  "digit_char d = ''0123456789'' ! d"

function nat_digits :: "nat \<Rightarrow> string" where
  "nat_digits n =
     (if n < 10 then [digit_char n]
      else nat_digits (n div 10) @ [digit_char (n mod 10)])"
  by pat_completeness auto
termination
  by (relation "measure id") auto

declare nat_digits.simps [simp del]

definition int_toString :: "int \<Rightarrow> string" where
  "int_toString i =
     (if i < 0 then CHR ''-'' # nat_digits (nat (- i)) else nat_digits (nat i))"

definition sample_runtime :: "int js_runtime" where
  "sample_runtime =
     \<lparr>Number_toString = int_toString, String_toLowerCase = map char_toLowerCase\<rparr>"

definition sample_row :: "string \<Rightarrow> int jsval \<Rightarrow> string \<Rightarrow> int json_row" where
  "sample_row nte sec school =
     [(''NTE'', Str nte), (''Municipio'', Str ''Salvador''), (''Cod.SEC'', sec),
      (''Nome Escola'', Str school), (''Valor'', Num 1500)]"

text \<open>
  Four decoded rows. The first has the five columns; the third has no \<^verbatim>\<open>Cod.SEC\<close> cell
  (the library leaves an empty cell out of the row object) and a school name that
  contains digits; the fourth has \<^verbatim>\<open>null\<close> there.
\<close>

definition row_without_sec :: "int json_row" where
  "row_without_sec =
     [(''NTE'', Str ''03''), (''Municipio'', Str ''Feira''),
      (''Nome Escola'', Str ''Escola 2901 null''), (''Valor'', Num 10)]"

definition sample_rows :: "int json_row list" where
  "sample_rows =
     [sample_row ''01'' (Num 2901) ''Escola A'', sample_row ''02'' (Str ''AB-77'') ''Escola B'',
      row_without_sec, sample_row ''04'' Null ''Escola D'']"

text \<open>The state after these rows were uploaded and the user typed a search text.\<close>

definition sample_state :: "string \<Rightarrow> int app_state" where
  "sample_state term =
     (upload ''dados.xlsx'' (OnLoad (Rows sample_rows)) initial_state)\<lparr>searchTerm := term\<rparr>"

text \<open>
  Two reads in flight: a file is picked, a second file is picked before the first read
  has ended, and the two \<^verbatim>\<open>onload\<close> callbacks arrive in that order. The first file decodes
  to one row with the five columns, the second to one row without \<^verbatim>\<open>Cod.SEC\<close>.
\<close>

definition overlapping_reads :: "int app_state" where
  "overlapping_reads =
     reader_onload (Rows [row_without_sec])
       (reader_onload (Rows [sample_row ''01'' (Num 2901) ''Escola A''])
          (handleFileChange (Some ''b.xlsx'')
             (handleFileChange (Some ''a.xlsx'') initial_state)))"

section \<open>Properties\<close>

subsection \<open>What the runtime functions compute\<close>

lemma String_startsWith_iff: "String_startsWith s t \<longleftrightarrow> (\<exists>q. s = t @ q)"
  by (induction s t rule: String_startsWith.induct) auto

text \<open>\<open>String_includes\<close> decides the substring relation.\<close>

lemma String_includes_iff: "String_includes s t \<longleftrightarrow> (\<exists>p q. s = p @ t @ q)"
proof (induction s)
  case Nil
  then show ?case by simp
next
  case (Cons c s)
  show ?case
  proof
    assume "String_includes (c # s) t"
    then consider "String_startsWith (c # s) t" | "String_includes s t" by auto
    then show "\<exists>p q. c # s = p @ t @ q"
    proof cases
      case 1
      then obtain q where "c # s = t @ q" by (auto simp: String_startsWith_iff)
      then have "c # s = [] @ t @ q" by simp
      then show ?thesis by blast
    next
      case 2
      then obtain p q where "s = p @ t @ q" using Cons.IH by blast
      then have "c # s = (c # p) @ t @ q" by simp
      then show ?thesis by blast
    qed
  next
    assume "\<exists>p q. c # s = p @ t @ q"
    then obtain p q where pq: "c # s = p @ t @ q" by blast
    show "String_includes (c # s) t"
    proof (cases p)
      case Nil
      with pq have "String_startsWith (c # s) t" by (auto simp: String_startsWith_iff)
      then show ?thesis by simp
    next
      case (Cons d p')
      with pq have "s = p' @ t @ q" by simp
      then have "String_includes s t" using Cons.IH by blast
      then show ?thesis by simp
    qed
  qed
qed

text \<open>A callback that never raises makes \<open>Array_filter\<close> the filter of lists.\<close>

lemma Array_filter_total:
  "(\<And>x. x \<in> set xs \<Longrightarrow> f x = Inr (g x)) \<Longrightarrow>
   Array_filter f xs = Inr (filter (\<lambda>x. truthy (g x)) xs)"
  by (induction xs) simp_all

subsection \<open>The filter\<close>

text \<open>The callback of the filter returns on every row: the optional chaining covers the
  two values on which \<open>toString_method\<close> raises.\<close>

lemma filter_callback_value:
  "filter_callback rt lf item =
     Inr (if nullish (Cod_SEC item) then None
          else Some (case toString_method rt (Cod_SEC item) of
                       Inl e \<Rightarrow> False
                     | Inr str \<Rightarrow> String_includes (String_toLowerCase rt str) lf))"
  by (cases "Cod_SEC item") (simp_all add: filter_callback_def)

lemma callback_truthy:
  "truthy (if nullish v then None
           else Some (case toString_method rt v of
                        Inl e \<Rightarrow> False
                      | Inr str \<Rightarrow> String_includes (String_toLowerCase rt str) lf))
   \<longleftrightarrow> (\<exists>str. toString_method rt v = Inr str
              \<and> String_includes (String_toLowerCase rt str) lf)"
  by (cases v) simp_all

lemma filtered_rows_value:
  "filtered_rows rt rows term =
     Inr (if term = [] then rows
          else filter (\<lambda>item. \<exists>str. toString_method rt (Cod_SEC item) = Inr str
                 \<and> String_includes (String_toLowerCase rt str) (String_toLowerCase rt term))
                 rows)"
proof (cases "term = []")
  case True
  then show ?thesis by (simp add: filtered_rows_def)
next
  case False
  have "Array_filter (filter_callback rt (String_toLowerCase rt term)) rows =
        Inr (filter (\<lambda>item. truthy (if nullish (Cod_SEC item) then None
           else Some (case toString_method rt (Cod_SEC item) of
                        Inl e \<Rightarrow> False
                      | Inr str \<Rightarrow> String_includes (String_toLowerCase rt str)
                                     (String_toLowerCase rt term)))) rows)"
    by (rule Array_filter_total) (rule filter_callback_value)
  with False show ?thesis
    by (simp add: filtered_rows_def callback_truthy)
qed

lemmas sample_simps =
  sample_state_def sample_rows_def sample_row_def row_without_sec_def sample_runtime_def
  upload_def handleFileChange_def reader_onload_def initial_state_def
  hasAllHeaders_def expectedHeaders_def Object_keys_def to_IRowData_def get_prop_def
  int_toString_def nat_digits.simps digit_char_def char_toLowerCase_def

text \<open>
  C1. For every state with a non-empty search text, \<^verbatim>\<open>filterData\<close> returns, and the
  filtered set is the row set restricted, in order, to the rows whose \<^verbatim>\<open>Cod.SEC\<close> field
  has a string conversion (it is neither \<^verbatim>\<open>undefined\<close> nor \<^verbatim>\<open>null\<close>) that, lowercased,
  contains the lowercased search text as a substring. The condition reads no other
  field of the row, and nothing else of the state changes.
\<close>

theorem filterData_substring_match:
  assumes "searchTerm s \<noteq> []"
  shows "filterData rt s =
           Inr (s\<lparr>filteredData :=
                  filter (\<lambda>item. \<exists>str. toString_method rt (Cod_SEC item) = Inr str
                            \<and> (\<exists>p q. String_toLowerCase rt str
                                        = p @ String_toLowerCase rt (searchTerm s) @ q))
                    (data s)\<rparr>)"
  using assms by (simp add: filterData_def filtered_rows_value String_includes_iff)

text \<open>
  On the sample rows: the search text 290 keeps the row whose code is the number 2901
  and not the row whose school name contains 2901; the search text b-7 keeps the row
  whose code is AB-77.
\<close>

theorem filterData_substring_match_witness:
  "searchTerm (sample_state ''290'') \<noteq> []
   \<and> filterData sample_runtime (sample_state ''290'') =
       Inr ((sample_state ''290'')
              \<lparr>filteredData := [to_IRowData (sample_row ''01'' (Num 2901) ''Escola A'')]\<rparr>)
   \<and> searchTerm (sample_state ''b-7'') \<noteq> []
   \<and> filterData sample_runtime (sample_state ''b-7'') =
       Inr ((sample_state ''b-7'')
              \<lparr>filteredData := [to_IRowData (sample_row ''02'' (Str ''AB-77'') ''Escola B'')]\<rparr>)"
proof -
  have a: "searchTerm (sample_state ''290'') \<noteq> []"
    by (simp add: sample_state_def)
  have b: "searchTerm (sample_state ''b-7'') \<noteq> []"
    by (simp add: sample_state_def)
  note at_290 =
    filterData_substring_match [OF a, of sample_runtime, unfolded String_includes_iff [symmetric]]
  note at_b7 =
    filterData_substring_match [OF b, of sample_runtime, unfolded String_includes_iff [symmetric]]
  show ?thesis
    using a b at_290 at_b7 by (simp add: sample_simps)
qed

text \<open>
  C7. Filtering is idempotent: for every row list and every search text the filter
  returns, and filtering its output again with the same text returns that output.
\<close>

theorem filter_idempotent:
  "\<exists>once. filtered_rows rt rows term = Inr once \<and> filtered_rows rt once term = Inr once"
proof (cases "term = []")
  case True
  then show ?thesis by (simp add: filtered_rows_def)
next
  case False
  then show ?thesis by (simp add: filtered_rows_value)
qed

theorem filter_idempotent_witness:
  "filtered_rows sample_runtime (map to_IRowData sample_rows) ''7''
     = Inr [to_IRowData (sample_row ''02'' (Str ''AB-77'') ''Escola B'')]
   \<and> filtered_rows sample_runtime
        [to_IRowData (sample_row ''02'' (Str ''AB-77'') ''Escola B'')] ''7''
     = Inr [to_IRowData (sample_row ''02'' (Str ''AB-77'') ''Escola B'')]"
proof -
  have "filtered_rows sample_runtime (map to_IRowData sample_rows) ''7''
     = Inr [to_IRowData (sample_row ''02'' (Str ''AB-77'') ''Escola B'')]"
    by (simp add: sample_simps filtered_rows_def filter_callback_def)
  then show ?thesis
    using filter_idempotent [of sample_runtime "map to_IRowData sample_rows" "''7''"]
    by auto
qed

text \<open>
  C9. For every non-empty search text, the callback of the filter returns \<^verbatim>\<open>undefined\<close>
  on a row whose \<^verbatim>\<open>Cod.SEC\<close> field is \<^verbatim>\<open>null\<close> or \<^verbatim>\<open>undefined\<close> instead of raising, the
  filter of any row list returns, and that row is not in the filtered set.
\<close>

theorem nullish_never_matches:
  assumes "term \<noteq> []" and "Cod_SEC item = Null \<or> Cod_SEC item = Undefined"
  shows "filter_callback rt (String_toLowerCase rt term) item = Inr None
         \<and> (\<exists>filtered. filtered_rows rt rows term = Inr filtered \<and> item \<notin> set filtered)"
  using assms by (auto simp: filtered_rows_value filter_callback_def)

text \<open>The search text null does not find the row whose code is \<^verbatim>\<open>null\<close>.\<close>

theorem nullish_never_matches_witness:
  "''null'' \<noteq> []
   \<and> (Cod_SEC (to_IRowData (sample_row ''04'' Null ''Escola D'')) = Null
       \<or> Cod_SEC (to_IRowData (sample_row ''04'' Null ''Escola D'')) = Undefined)
   \<and> filter_callback sample_runtime (String_toLowerCase sample_runtime ''null'')
        (to_IRowData (sample_row ''04'' Null ''Escola D'')) = Inr None
   \<and> (\<exists>filtered. filtered_rows sample_runtime (map to_IRowData sample_rows) ''null''
                    = Inr filtered
          \<and> to_IRowData (sample_row ''04'' Null ''Escola D'') \<notin> set filtered)"
proof -
  have a: "''null'' \<noteq> []"
    by simp
  have b: "Cod_SEC (to_IRowData (sample_row ''04'' Null ''Escola D'')) = Null
           \<or> Cod_SEC (to_IRowData (sample_row ''04'' Null ''Escola D'')) = Undefined"
    by (simp add: to_IRowData_def get_prop_def sample_row_def)
  from nullish_never_matches [OF a b, of sample_runtime "map to_IRowData sample_rows"] a b
  show ?thesis by blast
qed

text \<open>
  C10. For every row list and search text the filter returns a subsequence of the row
  list: rows are removed, never reordered, duplicated or changed.
\<close>

theorem filtered_is_subsequence:
  "\<exists>filtered. filtered_rows rt rows term = Inr filtered \<and> subseq filtered rows"
  by (simp add: filtered_rows_value)

subsection \<open>Upload and validation\<close>

lemma hasAllHeaders_iff:
  "hasAllHeaders headers \<longleftrightarrow>
     {''NTE'', ''Municipio'', ''Cod.SEC'', ''Nome Escola'', ''Valor''} \<subseteq> set headers"
  by (simp add: hasAllHeaders_def expectedHeaders_def)


lemma upload_Rows_Cons:
  "upload name (OnLoad (Rows (first_row # rest))) s =
     (if hasAllHeaders (Object_keys first_row)
      then s\<lparr>isLoading := False, error := None, fileName := Some name,
             data := map to_IRowData (first_row # rest)\<rparr>
      else s\<lparr>isLoading := False, error := Some msg_missing, fileName := None, data := []\<rparr>)"
  by (simp add: upload_def handleFileChange_def reader_onload_def)

text \<open>
  C2. When the search text is empty, \<^verbatim>\<open>filterData\<close> returns and sets the filtered set to the
  full row set, unchanged. So after the upload of decoded rows whose first row has the
  five columns, the filtered set has as many rows as were decoded.
\<close>

theorem filterData_empty_search:
  assumes "searchTerm s = []"
  shows "filterData rt s = Inr (s\<lparr>filteredData := data s\<rparr>)
         \<and> ({''NTE'', ''Municipio'', ''Cod.SEC'', ''Nome Escola'', ''Valor''}
              \<subseteq> set (Object_keys first_row) \<longrightarrow>
              (\<exists>s'. filterData rt (upload name (OnLoad (Rows (first_row # rest))) s) = Inr s'
                    \<and> length (filteredData s') = length (first_row # rest)))"
  using assms
  by (simp add: filterData_def filtered_rows_def upload_Rows_Cons hasAllHeaders_iff)

theorem filterData_empty_search_witness:
  "searchTerm (sample_state []) = []
   \<and> filterData sample_runtime (sample_state []) =
       Inr ((sample_state [])\<lparr>filteredData := map to_IRowData sample_rows\<rparr>)
   \<and> {''NTE'', ''Municipio'', ''Cod.SEC'', ''Nome Escola'', ''Valor''}
        \<subseteq> set (Object_keys (sample_row ''01'' (Num 2901) ''Escola A''))
   \<and> (\<exists>s'. filterData sample_runtime
               (upload ''dados.xlsx''
                  (OnLoad (Rows [sample_row ''01'' (Num 2901) ''Escola A'', row_without_sec]))
                  (sample_state [])) = Inr s'
            \<and> length (filteredData s') = 2)"
proof -
  have a: "searchTerm (sample_state []) = []"
    by (simp add: sample_state_def)
  have b: "{''NTE'', ''Municipio'', ''Cod.SEC'', ''Nome Escola'', ''Valor''}
             \<subseteq> set (Object_keys (sample_row ''01'' (Num 2901) ''Escola A''))"
    by (simp add: Object_keys_def sample_row_def)
  have c: "data (sample_state []) = map to_IRowData sample_rows"
    by (simp add: sample_state_def upload_def handleFileChange_def reader_onload_def
        hasAllHeaders_def expectedHeaders_def Object_keys_def sample_rows_def sample_row_def)
  have d: "length [sample_row ''01'' (Num 2901) ''Escola A'', row_without_sec] = 2"
    by simp
  from filterData_empty_search [OF a, of sample_runtime
        "sample_row ''01'' (Num 2901) ''Escola A''" "''dados.xlsx''" "[row_without_sec]"]
    a b c d
  show ?thesis by metis
qed



text \<open>
  C4, as stated, fails in two ways. The callback never empties the row set: only the
  synchronous part of \<^verbatim>\<open>handleFileChange\<close> does (line 25), so when a second file is picked
  while the first is still being read, the first file's rows arrive and the second
  file's missing-columns error leaves them in the row set. And a file that decodes to no
  row gets the empty-file message, whatever its columns are.
\<close>

theorem missing_column_keeps_earlier_rows:
  "''Cod.SEC'' \<notin> set (Object_keys row_without_sec)
   \<and> error overlapping_reads = Some msg_missing
   \<and> data overlapping_reads
       = [\<lparr>NTE = Str ''01'', Municipio = Str ''Salvador'', Cod_SEC = Num 2901,
            Nome_Escola = Str ''Escola A'', Valor = Num 1500\<rparr>]
   \<and> data overlapping_reads \<noteq> []
   \<and> error (upload ''vazio.xlsx'' (OnLoad (Rows [])) (initial_state :: int app_state))
       = Some msg_empty
   \<and> msg_empty \<noteq> msg_missing"
  by (simp add: overlapping_reads_def reader_onload_def handleFileChange_def initial_state_def
      upload_def hasAllHeaders_def expectedHeaders_def Object_keys_def row_without_sec_def
      sample_row_def to_IRowData_def get_prop_def msg_empty_def msg_missing_def)

text \<open>
  C4, amended. For one upload with no other file event between the choice of the file
  and the reader's callback, whose decoded rows are not empty and whose first row lacks
  one of the five column names, the error is the missing-columns message and the row
  set is empty when the upload is over.
\<close>

theorem upload_missing_column:
  assumes "header \<in> {''NTE'', ''Municipio'', ''Cod.SEC'', ''Nome Escola'', ''Valor''}"
    and "header \<notin> set (Object_keys first_row)"
  shows "error (upload name (OnLoad (Rows (first_row # rest))) s) = Some msg_missing
         \<and> data (upload name (OnLoad (Rows (first_row # rest))) s) = []"
proof -
  from assms have "\<not> hasAllHeaders (Object_keys first_row)"
    by (auto simp: hasAllHeaders_iff)
  then show ?thesis by (simp add: upload_Rows_Cons)
qed

theorem upload_missing_column_witness:
  "''Cod.SEC'' \<in> {''NTE'', ''Municipio'', ''Cod.SEC'', ''Nome Escola'', ''Valor''}
   \<and> ''Cod.SEC'' \<notin> set (Object_keys row_without_sec)
   \<and> error (upload ''dados.xlsx'' (OnLoad (Rows [row_without_sec])) (sample_state ''290''))
       = Some (''The file is missing required columns. Please ensure it has: ''
               @ ''NTE, Municipio, Cod.SEC, Nome Escola, Valor.'')
   \<and> data (upload ''dados.xlsx'' (OnLoad (Rows [row_without_sec])) (sample_state ''290'')) = []"
proof -
  have a: "''Cod.SEC'' \<in> {''NTE'', ''Municipio'', ''Cod.SEC'', ''Nome Escola'', ''Valor''}"
    by simp
  have b: "''Cod.SEC'' \<notin> set (Object_keys row_without_sec)"
    by (simp add: Object_keys_def row_without_sec_def)
  have c: "msg_missing = ''The file is missing required columns. Please ensure it has: ''
               @ ''NTE, Municipio, Cod.SEC, Nome Escola, Valor.''"
    by (simp add: msg_missing_def expectedHeaders_def)
  show ?thesis
    using a b c upload_missing_column [OF a b, of "''dados.xlsx''" "[]" "sample_state ''290''"]
    by simp
qed

text \<open>
  C8. The header check reads the keys of the first decoded row only: whenever that row
  lacks one of the five column names, \<^verbatim>\<open>reader.onload\<close> sets the missing-columns message,
  clears the file name and leaves the row set as it was, whatever the later rows hold.
\<close>

theorem validation_reads_first_row_only:
  assumes "header \<in> {''NTE'', ''Municipio'', ''Cod.SEC'', ''Nome Escola'', ''Valor''}"
    and "header \<notin> set (Object_keys first_row)"
  shows "reader_onload (Rows (first_row # rest)) s =
           s\<lparr>error := Some msg_missing, isLoading := False, fileName := None\<rparr>"
proof -
  from assms have "\<not> hasAllHeaders (Object_keys first_row)"
    by (auto simp: hasAllHeaders_iff)
  then show ?thesis by (simp add: reader_onload_def)
qed

text \<open>The first row has no \<^verbatim>\<open>Cod.SEC\<close>, the second has all five columns: rejected.\<close>

theorem validation_reads_first_row_only_witness:
  "''Cod.SEC'' \<in> {''NTE'', ''Municipio'', ''Cod.SEC'', ''Nome Escola'', ''Valor''}
   \<and> ''Cod.SEC'' \<notin> set (Object_keys row_without_sec)
   \<and> {''NTE'', ''Municipio'', ''Cod.SEC'', ''Nome Escola'', ''Valor''}
        \<subseteq> set (Object_keys (sample_row ''01'' (Num 2901) ''Escola A''))
   \<and> reader_onload (Rows [row_without_sec, sample_row ''01'' (Num 2901) ''Escola A''])
        (handleFileChange (Some ''dados.xlsx'') initial_state)
      = \<lparr>data = [], filteredData = [], searchTerm = [], error = Some msg_missing,
         fileName = None, isLoading = False\<rparr>"
proof -
  have a: "''Cod.SEC'' \<in> {''NTE'', ''Municipio'', ''Cod.SEC'', ''Nome Escola'', ''Valor''}"
    by simp
  have b: "''Cod.SEC'' \<notin> set (Object_keys row_without_sec)"
    by (simp add: Object_keys_def row_without_sec_def)
  have c: "{''NTE'', ''Municipio'', ''Cod.SEC'', ''Nome Escola'', ''Valor''}
             \<subseteq> set (Object_keys (sample_row ''01'' (Num 2901) ''Escola A''))"
    by (simp add: Object_keys_def sample_row_def)
  show ?thesis
    using a b c
      validation_reads_first_row_only [OF a b,
        of "[sample_row ''01'' (Num 2901) ''Escola A'']"
           "handleFileChange (Some ''dados.xlsx'') (initial_state :: int app_state)"]
    by (simp add: handleFileChange_def initial_state_def)
qed

text \<open>
  C5. The claim is that each error branch ends with an empty row set and a cleared file
  name. The row set is empty in all of them, and the parse-failure, missing-columns and
  read-failure branches clear the file name; the empty-file branch (lines 36-40) does
  not call \<^verbatim>\<open>setFileName(null)\<close>: after the upload of a file that decodes to no rows, the
  file name is still that of the file.
\<close>

theorem empty_file_keeps_fileName:
  "fileName (upload ''vazio.xlsx'' (OnLoad (Rows [])) (initial_state :: int app_state))
     = Some ''vazio.xlsx''
   \<and> error (upload ''vazio.xlsx'' (OnLoad (Rows [])) (initial_state :: int app_state))
     = Some msg_empty
   \<and> data (upload ''vazio.xlsx'' (OnLoad (Rows [])) (initial_state :: int app_state)) = []
   \<and> fileName (upload ''vazio.xlsx'' (OnLoad Throws) (initial_state :: int app_state)) = None
   \<and> fileName (upload ''vazio.xlsx'' OnError (initial_state :: int app_state)) = None
   \<and> fileName (upload ''vazio.xlsx'' (OnLoad (Rows [[(''NTE'', Str ''01'')]]))
                 (initial_state :: int app_state)) = None"
  by (simp add: upload_def handleFileChange_def reader_onload_def reader_onerror_def
      initial_state_def hasAllHeaders_def expectedHeaders_def Object_keys_def)

subsection \<open>Clearing\<close>

text \<open>
  C6. From any state, \<^verbatim>\<open>clearFile\<close> sets the full row set, the filtered set, the search
  text, the filename and the error message to their initial values: empty array, empty
  array, empty string, null and null.
\<close>

theorem clearFile_resets:
  "data (clearFile s) = [] \<and> filteredData (clearFile s) = [] \<and> searchTerm (clearFile s) = []
   \<and> fileName (clearFile s) = None \<and> error (clearFile s) = None
   \<and> data (clearFile s) = data (initial_state :: 'n app_state)
   \<and> filteredData (clearFile s) = filteredData (initial_state :: 'n app_state)
   \<and> searchTerm (clearFile s) = searchTerm (initial_state :: 'n app_state)
   \<and> fileName (clearFile s) = fileName (initial_state :: 'n app_state)
   \<and> error (clearFile s) = error (initial_state :: 'n app_state)"
  by (simp add: clearFile_def initial_state_def)

end
